theory Spec2Isabelle
  imports Main "HOL-Library.Sublist"
begin

section \<open>JavaScript string and array primitives used by the analyzer\<close>

text \<open>
  A string is a list of code units, and the model covers the strings whose units are all
  below 256, which \<^typ>\<open>char\<close> holds: host names, addresses, DNS error codes and provider
  names are such strings. On that range \<open>String.prototype.toLowerCase\<close> maps the ASCII
  letters A-Z and the Latin-1 capitals (U+00C0 to U+00DE without the multiplication sign
  U+00D7) to the unit 32 above, and \<open>String.prototype.trim\<close> strips the units 9 to 13, 32
  and 160 from both ends. \<open>includes\<close> is the substring test, \<open>join\<close> puts the separator
  between the elements.
\<close>

definition startsWith :: "string \<Rightarrow> string \<Rightarrow> bool" where
  "startsWith s p = (take (length p) s = p)"

definition includes_str :: "string \<Rightarrow> string \<Rightarrow> bool" where
  "includes_str s p = list_ex (\<lambda>i. startsWith (drop i s) p) [0..<Suc (length s)]"

definition toLowerCase_unit :: "char \<Rightarrow> char" where
  "toLowerCase_unit c =
     (let n = (of_char c :: nat)
      in if (65 \<le> n \<and> n \<le> 90) \<or> (192 \<le> n \<and> n \<le> 222 \<and> n \<noteq> 215)
         then char_of (n + 32) else c)"

definition toLowerCase :: "string \<Rightarrow> string" where
  "toLowerCase s = map toLowerCase_unit s"

fun join :: "string list \<Rightarrow> string \<Rightarrow> string" where
  "join [] sep = []"
| "join [x] sep = x"
| "join (x # y # ys) sep = x @ sep @ join (y # ys) sep"

definition isWhiteSpace :: "char \<Rightarrow> bool" where
  "isWhiteSpace c = ((of_char c :: nat) \<in> {9, 10, 11, 12, 13, 32, 160})"

definition trim :: "string \<Rightarrow> string" where
  "trim s = rev (dropWhile isWhiteSpace (rev (dropWhile isWhiteSpace s)))"

section \<open>The resolver: \<open>node:dns\<close> promises, each call resolving or rejecting\<close>

text \<open>
  A rejected promise carries an error object; the analyzer reads its \<open>code\<close> (absent on an
  error that is not a DNS error) and its \<open>message\<close>.
\<close>

record dns_error =
  code :: "string option"
  error_message :: string

record mx_record =
  exchange :: string
  priority :: nat

record resolver =
  resolveTxt :: "string \<Rightarrow> dns_error + string list list"
  resolveNs :: "string \<Rightarrow> dns_error + string list"
  resolveCname :: "string \<Rightarrow> dns_error + string list"
  resolve4 :: "string \<Rightarrow> dns_error + string list"
  resolveMx :: "string \<Rightarrow> dns_error + mx_record list"
  reverse :: "string \<Rightarrow> dns_error + string list"

text \<open>Every call made on the resolver is logged, in the order the calls are issued.\<close>

datatype query =
    Q_resolveTxt string
  | Q_resolveNs string
  | Q_resolveCname string
  | Q_resolve4 string
  | Q_resolveMx string
  | Q_reverse string

section \<open>The score table \<open>SCORE_CRITERIA\<close>\<close>

datatype check_kind = SPF | DMARC | NS | CNAME | A | MX

datatype criterion =
  exists | not_exists | reliable | unreliable | normal | deprecated | stable | unstable

text \<open>
  The message of a table entry is a fixed Korean sentence; it is identified here by the
  entry's path in the table.
\<close>

record rule =
  score :: int
  message :: "check_kind \<times> criterion"

definition SCORE_CRITERIA_SPF_exists :: rule where
  "SCORE_CRITERIA_SPF_exists = \<lparr>score = 10, message = (SPF, exists)\<rparr>"

definition SCORE_CRITERIA_SPF_not_exists :: rule where
  "SCORE_CRITERIA_SPF_not_exists = \<lparr>score = - 10, message = (SPF, not_exists)\<rparr>"

definition SCORE_CRITERIA_DMARC_exists :: rule where
  "SCORE_CRITERIA_DMARC_exists = \<lparr>score = 10, message = (DMARC, exists)\<rparr>"

definition SCORE_CRITERIA_DMARC_not_exists :: rule where
  "SCORE_CRITERIA_DMARC_not_exists = \<lparr>score = - 10, message = (DMARC, not_exists)\<rparr>"

definition SCORE_CRITERIA_NS_reliable :: rule where
  "SCORE_CRITERIA_NS_reliable = \<lparr>score = 10, message = (NS, reliable)\<rparr>"

definition SCORE_CRITERIA_NS_unreliable :: rule where
  "SCORE_CRITERIA_NS_unreliable = \<lparr>score = - 10, message = (NS, unreliable)\<rparr>"

definition SCORE_CRITERIA_CNAME_normal :: rule where
  "SCORE_CRITERIA_CNAME_normal = \<lparr>score = 5, message = (CNAME, normal)\<rparr>"

definition SCORE_CRITERIA_CNAME_deprecated :: rule where
  "SCORE_CRITERIA_CNAME_deprecated = \<lparr>score = - 15, message = (CNAME, deprecated)\<rparr>"

definition SCORE_CRITERIA_A_stable :: rule where
  "SCORE_CRITERIA_A_stable = \<lparr>score = 5, message = (A, stable)\<rparr>"

definition SCORE_CRITERIA_A_unstable :: rule where
  "SCORE_CRITERIA_A_unstable = \<lparr>score = - 10, message = (A, unstable)\<rparr>"

definition SCORE_CRITERIA_MX_exists :: rule where
  "SCORE_CRITERIA_MX_exists = \<lparr>score = 5, message = (MX, exists)\<rparr>"

definition SCORE_CRITERIA_MX_not_exists :: rule where
  "SCORE_CRITERIA_MX_not_exists = \<lparr>score = - 5, message = (MX, not_exists)\<rparr>"

definition RELIABLE_NS_PROVIDERS :: "string list" where
  "RELIABLE_NS_PROVIDERS = [''cloudflare'', ''aws'', ''azure'', ''google'']"

definition RELIABLE_IP_PROVIDERS :: "string list" where
  "RELIABLE_IP_PROVIDERS = [''amazonaws'', ''azure'', ''google'']"

section \<open>Report lines\<close>

text \<open>
  A line of the report is a template string: an emoji, the score change written in
  brackets as a literal of the template (\<open>[+10]\<close>, \<open>[-15]\<close>, \<open>[0]\<close>), and a body. The body is
  a table message, optionally followed by evidence in parentheses, or one of the fixed
  sentences of the branches that have no table entry.
\<close>

datatype emoji = Check_mark | Cross_mark | Warning_sign | Information

datatype body =
    Criterion "check_kind \<times> criterion"
  | Criterion_names "check_kind \<times> criterion" string
  | Criterion_ip_count "check_kind \<times> criterion" nat
  | Criterion_ptr "check_kind \<times> criterion" string
  | Lookup_error check_kind string
  | No_cname_record
  | Not_cloud_provider string
  | No_a_record

record finding =
  emoji :: emoji
  scoreDelta :: int
  body :: body

text \<open>The check a line belongs to, read off the record kind its sentence names.\<close>

fun check_of :: "body \<Rightarrow> check_kind" where
  "check_of (Criterion m) = fst m"
| "check_of (Criterion_names m ev) = fst m"
| "check_of (Criterion_ip_count m n) = fst m"
| "check_of (Criterion_ptr m ev) = fst m"
| "check_of (Lookup_error k msg) = k"
| "check_of No_cname_record = CNAME"
| "check_of (Not_cloud_provider ev) = A"
| "check_of No_a_record = A"

section \<open>The accumulator of \<open>generateTrustReport\<close>\<close>

record analysis =
  totalScore :: int
  report :: "finding list"
  queries :: "query list"

definition add_score :: "int \<Rightarrow> analysis \<Rightarrow> analysis" where
  "add_score n st = st\<lparr>totalScore := totalScore st + n\<rparr>"

definition push :: "finding \<Rightarrow> analysis \<Rightarrow> analysis" where
  "push f st = st\<lparr>report := report st @ [f]\<rparr>"

definition issue :: "query list \<Rightarrow> analysis \<Rightarrow> analysis" where
  "issue qs st = st\<lparr>queries := queries st @ qs\<rparr>"

subsection \<open>1. SPF\<close>

definition checkSPF :: "resolver \<Rightarrow> string \<Rightarrow> analysis \<Rightarrow> analysis" where
  "checkSPF dns domain st0 =
     (let st = issue [Q_resolveTxt domain] st0 in
      case resolveTxt dns domain of
        Inr spfRecords \<Rightarrow>
          (let hasSpf = list_ex (\<lambda>rec. startsWith (join rec []) ''v=spf1'') spfRecords in
           if hasSpf
           then push \<lparr>emoji = Check_mark, scoreDelta = 10,
                       body = Criterion (message SCORE_CRITERIA_SPF_exists)\<rparr>
                  (add_score (score SCORE_CRITERIA_SPF_exists) st)
           else push \<lparr>emoji = Cross_mark, scoreDelta = - 10,
                       body = Criterion (message SCORE_CRITERIA_SPF_not_exists)\<rparr>
                  (add_score (score SCORE_CRITERIA_SPF_not_exists) st))
      | Inl error \<Rightarrow>
          if code error = Some ''ENODATA'' \<or> code error = Some ''ENOTFOUND''
          then push \<lparr>emoji = Cross_mark, scoreDelta = - 10,
                      body = Criterion (message SCORE_CRITERIA_SPF_not_exists)\<rparr>
                 (add_score (score SCORE_CRITERIA_SPF_not_exists) st)
          else push \<lparr>emoji = Warning_sign, scoreDelta = 0,
                      body = Lookup_error SPF (error_message error)\<rparr> st)"

subsection \<open>2. DMARC\<close>

definition checkDMARC :: "resolver \<Rightarrow> string \<Rightarrow> analysis \<Rightarrow> analysis" where
  "checkDMARC dns domain st0 =
     (let st = issue [Q_resolveTxt (''_dmarc.'' @ domain)] st0 in
      case resolveTxt dns (''_dmarc.'' @ domain) of
        Inr dmarcRecords \<Rightarrow>
          (let hasDmarc = list_ex (\<lambda>rec. startsWith (join rec []) ''v=DMARC1'') dmarcRecords in
           if hasDmarc
           then push \<lparr>emoji = Check_mark, scoreDelta = 10,
                       body = Criterion (message SCORE_CRITERIA_DMARC_exists)\<rparr>
                  (add_score (score SCORE_CRITERIA_DMARC_exists) st)
           else push \<lparr>emoji = Cross_mark, scoreDelta = - 10,
                       body = Criterion (message SCORE_CRITERIA_DMARC_not_exists)\<rparr>
                  (add_score (score SCORE_CRITERIA_DMARC_not_exists) st))
      | Inl error \<Rightarrow>
          if code error = Some ''ENODATA'' \<or> code error = Some ''ENOTFOUND''
          then push \<lparr>emoji = Cross_mark, scoreDelta = - 10,
                      body = Criterion (message SCORE_CRITERIA_DMARC_not_exists)\<rparr>
                 (add_score (score SCORE_CRITERIA_DMARC_not_exists) st)
          else push \<lparr>emoji = Warning_sign, scoreDelta = 0,
                      body = Lookup_error DMARC (error_message error)\<rparr> st)"

subsection \<open>3. NS\<close>

definition checkNS :: "resolver \<Rightarrow> string \<Rightarrow> analysis \<Rightarrow> analysis" where
  "checkNS dns domain st0 =
     (let st = issue [Q_resolveNs domain] st0 in
      case resolveNs dns domain of
        Inr nsRecords \<Rightarrow>
          (let isReliable =
                 list_ex (\<lambda>ns. list_ex (\<lambda>provider. includes_str (toLowerCase ns) provider)
                                  RELIABLE_NS_PROVIDERS) nsRecords in
           if isReliable
           then push \<lparr>emoji = Check_mark, scoreDelta = 10,
                       body = Criterion_names (message SCORE_CRITERIA_NS_reliable)
                                (join nsRecords '', '')\<rparr>
                  (add_score (score SCORE_CRITERIA_NS_reliable) st)
           else push \<lparr>emoji = Cross_mark, scoreDelta = - 10,
                       body = Criterion_names (message SCORE_CRITERIA_NS_unreliable)
                                (join nsRecords '', '')\<rparr>
                  (add_score (score SCORE_CRITERIA_NS_unreliable) st))
      | Inl error \<Rightarrow>
          push \<lparr>emoji = Warning_sign, scoreDelta = 0,
                 body = Lookup_error NS (error_message error)\<rparr> st)"

subsection \<open>4. CNAME of the www subdomain\<close>

definition checkCNAME :: "resolver \<Rightarrow> string \<Rightarrow> analysis \<Rightarrow> analysis" where
  "checkCNAME dns domain st0 =
     (let st = issue [Q_resolveCname (''www.'' @ domain)] st0 in
      case resolveCname dns (''www.'' @ domain) of
        Inr cnames \<Rightarrow>
          push \<lparr>emoji = Check_mark, scoreDelta = 5,
                 body = Criterion (message SCORE_CRITERIA_CNAME_normal)\<rparr>
            (add_score (score SCORE_CRITERIA_CNAME_normal) st)
      | Inl error \<Rightarrow>
          if code error = Some ''ENODATA''
          then push \<lparr>emoji = Information, scoreDelta = 0, body = No_cname_record\<rparr> st
          else if code error = Some ''ENOTFOUND''
          then push \<lparr>emoji = Cross_mark, scoreDelta = - 15,
                      body = Criterion (message SCORE_CRITERIA_CNAME_deprecated)\<rparr>
                 (add_score (score SCORE_CRITERIA_CNAME_deprecated) st)
          else push \<lparr>emoji = Warning_sign, scoreDelta = 0,
                      body = Lookup_error CNAME (error_message error)\<rparr> st)"

subsection \<open>5. A records and their PTR names\<close>

text \<open>
  \<open>dns.reverse(ip).catch(() => '')\<close>: a rejected reverse lookup becomes the empty string,
  a resolved one is the array of host names.
\<close>

datatype ptr = Caught | Hostnames "string list"

definition reverse_caught :: "resolver \<Rightarrow> string \<Rightarrow> ptr" where
  "reverse_caught dns ip = (case reverse dns ip of Inr names \<Rightarrow> Hostnames names | Inl e \<Rightarrow> Caught)"

text \<open>\<open>ptr[0]\<close>: \<open>undefined\<close> on the empty string and on the empty array.\<close>

fun index0 :: "ptr \<Rightarrow> string option" where
  "index0 Caught = None"
| "index0 (Hostnames []) = None"
| "index0 (Hostnames (h # hs)) = Some h"

text \<open>\<open>ptr[0] && ptr[0].toLowerCase().includes(provider)\<close>, as a truth value.\<close>

definition ptr_matches :: "ptr \<Rightarrow> string \<Rightarrow> bool" where
  "ptr_matches p provider =
     (case index0 p of
        None \<Rightarrow> False
      | Some h \<Rightarrow> h \<noteq> [] \<and> includes_str (toLowerCase h) provider)"

text \<open>\<open>reverseLookups.flat()\<close>: an array is spliced in, the empty string stays an element.\<close>

fun flat :: "ptr list \<Rightarrow> string list" where
  "flat [] = []"
| "flat (Caught # ps) = [] # flat ps"
| "flat (Hostnames names # ps) = names @ flat ps"

definition checkA :: "resolver \<Rightarrow> string \<Rightarrow> analysis \<Rightarrow> analysis" where
  "checkA dns domain st0 =
     (let st = issue [Q_resolve4 domain] st0 in
      case resolve4 dns domain of
        Inr aRecords \<Rightarrow>
          if length aRecords > 0
          then
            if length aRecords \<ge> 5
            then push \<lparr>emoji = Cross_mark, scoreDelta = - 10,
                        body = Criterion_ip_count (message SCORE_CRITERIA_A_unstable)
                                 (length aRecords)\<rparr>
                   (add_score (score SCORE_CRITERIA_A_unstable) st)
            else
              (let st1 = issue (map Q_reverse aRecords) st;
                   reverseLookups = map (reverse_caught dns) aRecords;
                   isStableIp =
                     list_ex (\<lambda>p. list_ex (\<lambda>provider. ptr_matches p provider)
                                     RELIABLE_IP_PROVIDERS) reverseLookups in
               if isStableIp
               then push \<lparr>emoji = Check_mark, scoreDelta = 5,
                           body = Criterion_ptr (message SCORE_CRITERIA_A_stable)
                                    (join (flat reverseLookups) '', '')\<rparr>
                      (add_score (score SCORE_CRITERIA_A_stable) st1)
               else push \<lparr>emoji = Information, scoreDelta = 0,
                           body = Not_cloud_provider
                                    (if join (flat reverseLookups) '', '' = [] then ''N/A''
                                     else join (flat reverseLookups) '', '')\<rparr> st1)
          else push \<lparr>emoji = Warning_sign, scoreDelta = 0, body = No_a_record\<rparr> st
      | Inl error \<Rightarrow>
          if code error \<noteq> Some ''ENODATA'' \<and> code error \<noteq> Some ''ENOTFOUND''
          then push \<lparr>emoji = Warning_sign, scoreDelta = 0,
                      body = Lookup_error A (error_message error)\<rparr> st
          else st)"

subsection \<open>6. MX\<close>

definition checkMX :: "resolver \<Rightarrow> string \<Rightarrow> analysis \<Rightarrow> analysis" where
  "checkMX dns domain st0 =
     (let st = issue [Q_resolveMx domain] st0 in
      case resolveMx dns domain of
        Inr mxRecords \<Rightarrow>
          if length mxRecords > 0
          then push \<lparr>emoji = Check_mark, scoreDelta = 5,
                      body = Criterion (message SCORE_CRITERIA_MX_exists)\<rparr>
                 (add_score (score SCORE_CRITERIA_MX_exists) st)
          else push \<lparr>emoji = Cross_mark, scoreDelta = - 5,
                      body = Criterion (message SCORE_CRITERIA_MX_not_exists)\<rparr>
                 (add_score (score SCORE_CRITERIA_MX_not_exists) st)
      | Inl error \<Rightarrow>
          if code error = Some ''ENODATA'' \<or> code error = Some ''ENOTFOUND''
          then push \<lparr>emoji = Cross_mark, scoreDelta = - 5,
                      body = Criterion (message SCORE_CRITERIA_MX_not_exists)\<rparr>
                 (add_score (score SCORE_CRITERIA_MX_not_exists) st)
          else push \<lparr>emoji = Warning_sign, scoreDelta = 0,
                      body = Lookup_error MX (error_message error)\<rparr> st)"

subsection \<open>The whole analysis\<close>

text \<open>
  The six blocks run in sequence on one accumulator, each inside its own \<open>try\<close>; the
  function then prints the lines and the total. There is no \<open>throw\<close> and no check of
  \<open>domain\<close> before the first query.
\<close>

definition fresh :: analysis where
  "fresh = \<lparr>totalScore = 0, report = [], queries = []\<rparr>"

definition generateTrustReport :: "resolver \<Rightarrow> string \<Rightarrow> analysis" where
  "generateTrustReport dns domain =
     checkMX dns domain
       (checkA dns domain
          (checkCNAME dns domain
             (checkNS dns domain (checkDMARC dns domain (checkSPF dns domain fresh)))))"

section \<open>The prompt loop's handling of one input line\<close>

text \<open>
  \<open>startAnalyzer\<close> reads a line and either closes, asks again, or calls
  \<open>generateTrustReport\<close> on a domain. \<open>new URL(s).hostname\<close> is a platform parser: it is a
  parameter, \<open>None\<close> where the constructor throws.
\<close>

datatype action = Close | Ask_again | Analyze string

definition startAnalyzer :: "(string \<Rightarrow> string option) \<Rightarrow> string \<Rightarrow> action" where
  "startAnalyzer url_hostname input =
     (let trimmedInput = trim input in
      if toLowerCase trimmedInput = ''exit'' then Close
      else if trimmedInput = [] then Ask_again
      else
        (let potentialUrl =
               (if \<not> startsWith trimmedInput ''http'' then ''http://'' @ trimmedInput
                else trimmedInput) in
         case url_hostname potentialUrl of
           None \<Rightarrow> Analyze trimmedInput
         | Some hostname \<Rightarrow>
             if hostname \<noteq> takeWhile (\<lambda>c. c \<noteq> CHR ''/'') trimmedInput
             then Analyze hostname
             else Analyze trimmedInput))"

section \<open>Vocabulary of the specification\<close>

text \<open>
  The specification sorts a failed lookup into three classes. The analyzer compares the
  error's code with two literals; the classes are those literals and everything else.
\<close>

datatype failure_class = NotFound | NoData | Transient

definition failure_class_of :: "dns_error \<Rightarrow> failure_class" where
  "failure_class_of e =
     (if code e = Some ''ENOTFOUND'' then NotFound
      else if code e = Some ''ENODATA'' then NoData
      else Transient)"

text \<open>A lookup that failed with a code other than the two absence codes.\<close>

definition transient_failure :: "dns_error + 'a \<Rightarrow> bool" where
  "transient_failure r = (case r of Inl e \<Rightarrow> failure_class_of e = Transient | Inr v \<Rightarrow> False)"

text \<open>The check kinds of the lines of a report, in the order of the lines.\<close>

definition kinds :: "analysis \<Rightarrow> check_kind list" where
  "kinds st = map (\<lambda>f. check_of (body f)) (report st)"

text \<open>
  One step from \<open>st\<close> to \<open>st'\<close> keeps the lines of \<open>st\<close> and either appends nothing and
  leaves the total alone, or appends one line and adds that line's score change.
\<close>

definition accounted :: "analysis \<Rightarrow> analysis \<Rightarrow> bool" where
  "accounted st st' =
     (take (length (report st)) (report st') = report st \<and>
      (case drop (length (report st)) (report st') of
         [] \<Rightarrow> totalScore st' = totalScore st
       | [f] \<Rightarrow> totalScore st' = totalScore st + scoreDelta f
       | f # g # fs \<Rightarrow> False))"

section \<open>Resolvers used as concrete inputs\<close>

definition failing :: "string \<Rightarrow> resolver" where
  "failing c =
     \<lparr>resolveTxt = (\<lambda>name. Inl \<lparr>code = Some c, error_message = ''query failed''\<rparr>),
      resolveNs = (\<lambda>name. Inl \<lparr>code = Some c, error_message = ''query failed''\<rparr>),
      resolveCname = (\<lambda>name. Inl \<lparr>code = Some c, error_message = ''query failed''\<rparr>),
      resolve4 = (\<lambda>name. Inl \<lparr>code = Some c, error_message = ''query failed''\<rparr>),
      resolveMx = (\<lambda>name. Inl \<lparr>code = Some c, error_message = ''query failed''\<rparr>),
      reverse = (\<lambda>ip. Inl \<lparr>code = Some c, error_message = ''query failed''\<rparr>)\<rparr>"

text \<open>
  The end-to-end scenario: SPF present, DMARC absent, a Cloudflare name server, no CNAME,
  two addresses whose reverse lookups both fail, one mail exchanger.
\<close>

definition scenario :: resolver where
  "scenario =
     \<lparr>resolveTxt = (\<lambda>name. if name = ''example.com'' then Inr [[''v=spf1 -all'']]
                            else Inl \<lparr>code = Some ''ENODATA'', error_message = ''queryTxt ENODATA''\<rparr>),
      resolveNs = (\<lambda>name. Inr [''ns1.cloudflare.com'', ''ns2.cloudflare.com'']),
      resolveCname = (\<lambda>name. Inl \<lparr>code = Some ''ENODATA'', error_message = ''queryCname ENODATA''\<rparr>),
      resolve4 = (\<lambda>name. Inr [''192.0.2.1'', ''192.0.2.2'']),
      resolveMx = (\<lambda>name. Inr [\<lparr>exchange = ''mail.example.com'', priority = 10\<rparr>]),
      reverse = (\<lambda>ip. Inl \<lparr>code = Some ''ENOTFOUND'', error_message = ''getHostByAddr ENOTFOUND''\<rparr>)\<rparr>"

text \<open>Every query fails, except that the A query answers with the given addresses.\<close>

definition flux :: "string list \<Rightarrow> resolver" where
  "flux addresses = (failing ''ETIMEOUT'')\<lparr>resolve4 := (\<lambda>name. Inr addresses)\<rparr>"

text \<open>One address whose reverse lookup names a cloud provider in its second host name only.\<close>

definition second_name :: resolver where
  "second_name =
     (failing ''ETIMEOUT'')
       \<lparr>resolve4 := (\<lambda>name. Inr [''192.0.2.1'']),
        reverse := (\<lambda>ip. Inr [''host.example.net'', ''ec2.amazonaws.com''])\<rparr>"

text \<open>Two addresses: the first has no PTR record, the second one names Amazon in capitals.\<close>

definition cloud :: resolver where
  "cloud =
     (failing ''ETIMEOUT'')
       \<lparr>resolve4 := (\<lambda>name. Inr [''192.0.2.1'', ''192.0.2.2'']),
        reverse := (\<lambda>ip. if ip = ''192.0.2.2'' then Inr [''EC2.AmazonAWS.com'']
                          else Inl \<lparr>code = Some ''ENOTFOUND'', error_message = ''no PTR''\<rparr>)\<rparr>"

text \<open>Every query fails with a timeout, except the one whose answer is given.\<close>

definition cname_answer :: "dns_error + string list \<Rightarrow> resolver" where
  "cname_answer r = (failing ''ETIMEOUT'')\<lparr>resolveCname := (\<lambda>name. r)\<rparr>"

definition txt_answer :: "dns_error + string list list \<Rightarrow> resolver" where
  "txt_answer r = (failing ''ETIMEOUT'')\<lparr>resolveTxt := (\<lambda>name. r)\<rparr>"

definition mx_answer :: "dns_error + mx_record list \<Rightarrow> resolver" where
  "mx_answer r = (failing ''ETIMEOUT'')\<lparr>resolveMx := (\<lambda>name. r)\<rparr>"

text \<open>A URL parser that rejects every input.\<close>

definition never_parses :: "string \<Rightarrow> string option" where
  "never_parses s = None"

section \<open>Each block extends the accumulator independently of its contents\<close>

lemmas criteria_defs =
  SCORE_CRITERIA_SPF_exists_def SCORE_CRITERIA_SPF_not_exists_def
  SCORE_CRITERIA_DMARC_exists_def SCORE_CRITERIA_DMARC_not_exists_def
  SCORE_CRITERIA_NS_reliable_def SCORE_CRITERIA_NS_unreliable_def
  SCORE_CRITERIA_CNAME_normal_def SCORE_CRITERIA_CNAME_deprecated_def
  SCORE_CRITERIA_A_stable_def SCORE_CRITERIA_A_unstable_def
  SCORE_CRITERIA_MX_exists_def SCORE_CRITERIA_MX_not_exists_def

lemmas acc_defs = add_score_def push_def issue_def fresh_def

lemma checkSPF_frame:
  "checkSPF dns d st =
     st\<lparr>totalScore := totalScore st + totalScore (checkSPF dns d fresh),
        report := report st @ report (checkSPF dns d fresh),
        queries := queries st @ queries (checkSPF dns d fresh)\<rparr>"
  by (simp add: checkSPF_def criteria_defs acc_defs Let_def split: sum.splits)

lemma checkDMARC_frame:
  "checkDMARC dns d st =
     st\<lparr>totalScore := totalScore st + totalScore (checkDMARC dns d fresh),
        report := report st @ report (checkDMARC dns d fresh),
        queries := queries st @ queries (checkDMARC dns d fresh)\<rparr>"
  by (simp add: checkDMARC_def criteria_defs acc_defs Let_def split: sum.splits)

lemma checkNS_frame:
  "checkNS dns d st =
     st\<lparr>totalScore := totalScore st + totalScore (checkNS dns d fresh),
        report := report st @ report (checkNS dns d fresh),
        queries := queries st @ queries (checkNS dns d fresh)\<rparr>"
  by (simp add: checkNS_def criteria_defs acc_defs Let_def split: sum.splits)

lemma checkCNAME_frame:
  "checkCNAME dns d st =
     st\<lparr>totalScore := totalScore st + totalScore (checkCNAME dns d fresh),
        report := report st @ report (checkCNAME dns d fresh),
        queries := queries st @ queries (checkCNAME dns d fresh)\<rparr>"
  by (simp add: checkCNAME_def criteria_defs acc_defs Let_def split: sum.splits)

lemma checkA_frame:
  "checkA dns d st =
     st\<lparr>totalScore := totalScore st + totalScore (checkA dns d fresh),
        report := report st @ report (checkA dns d fresh),
        queries := queries st @ queries (checkA dns d fresh)\<rparr>"
  by (simp add: checkA_def criteria_defs acc_defs Let_def split: sum.splits)

lemma checkMX_frame:
  "checkMX dns d st =
     st\<lparr>totalScore := totalScore st + totalScore (checkMX dns d fresh),
        report := report st @ report (checkMX dns d fresh),
        queries := queries st @ queries (checkMX dns d fresh)\<rparr>"
  by (simp add: checkMX_def criteria_defs acc_defs Let_def split: sum.splits)

lemma totalScore_checkSPF:
  "totalScore (checkSPF dns d st) = totalScore st + totalScore (checkSPF dns d fresh)"
  using checkSPF_frame [of dns d st] by simp

lemma report_checkSPF:
  "report (checkSPF dns d st) = report st @ report (checkSPF dns d fresh)"
  using checkSPF_frame [of dns d st] by simp

lemma queries_checkSPF:
  "queries (checkSPF dns d st) = queries st @ queries (checkSPF dns d fresh)"
  using checkSPF_frame [of dns d st] by simp

lemma totalScore_checkDMARC:
  "totalScore (checkDMARC dns d st) = totalScore st + totalScore (checkDMARC dns d fresh)"
  using checkDMARC_frame [of dns d st] by simp

lemma report_checkDMARC:
  "report (checkDMARC dns d st) = report st @ report (checkDMARC dns d fresh)"
  using checkDMARC_frame [of dns d st] by simp

lemma queries_checkDMARC:
  "queries (checkDMARC dns d st) = queries st @ queries (checkDMARC dns d fresh)"
  using checkDMARC_frame [of dns d st] by simp

lemma totalScore_checkNS:
  "totalScore (checkNS dns d st) = totalScore st + totalScore (checkNS dns d fresh)"
  using checkNS_frame [of dns d st] by simp

lemma report_checkNS:
  "report (checkNS dns d st) = report st @ report (checkNS dns d fresh)"
  using checkNS_frame [of dns d st] by simp

lemma queries_checkNS:
  "queries (checkNS dns d st) = queries st @ queries (checkNS dns d fresh)"
  using checkNS_frame [of dns d st] by simp

lemma totalScore_checkCNAME:
  "totalScore (checkCNAME dns d st) = totalScore st + totalScore (checkCNAME dns d fresh)"
  using checkCNAME_frame [of dns d st] by simp

lemma report_checkCNAME:
  "report (checkCNAME dns d st) = report st @ report (checkCNAME dns d fresh)"
  using checkCNAME_frame [of dns d st] by simp

lemma queries_checkCNAME:
  "queries (checkCNAME dns d st) = queries st @ queries (checkCNAME dns d fresh)"
  using checkCNAME_frame [of dns d st] by simp

lemma totalScore_checkA:
  "totalScore (checkA dns d st) = totalScore st + totalScore (checkA dns d fresh)"
  using checkA_frame [of dns d st] by simp

lemma report_checkA:
  "report (checkA dns d st) = report st @ report (checkA dns d fresh)"
  using checkA_frame [of dns d st] by simp

lemma queries_checkA:
  "queries (checkA dns d st) = queries st @ queries (checkA dns d fresh)"
  using checkA_frame [of dns d st] by simp

lemma totalScore_checkMX:
  "totalScore (checkMX dns d st) = totalScore st + totalScore (checkMX dns d fresh)"
  using checkMX_frame [of dns d st] by simp

lemma report_checkMX:
  "report (checkMX dns d st) = report st @ report (checkMX dns d fresh)"
  using checkMX_frame [of dns d st] by simp

lemma queries_checkMX:
  "queries (checkMX dns d st) = queries st @ queries (checkMX dns d fresh)"
  using checkMX_frame [of dns d st] by simp

lemma generateTrustReport_totalScore:
  "totalScore (generateTrustReport dns d) =
     totalScore (checkSPF dns d fresh) +
     totalScore (checkDMARC dns d fresh) +
     totalScore (checkNS dns d fresh) +
     totalScore (checkCNAME dns d fresh) +
     totalScore (checkA dns d fresh) +
     totalScore (checkMX dns d fresh)"
  unfolding generateTrustReport_def
  apply (subst totalScore_checkMX, subst totalScore_checkA, subst totalScore_checkCNAME,
         subst totalScore_checkNS, subst totalScore_checkDMARC)
  apply simp
  done

lemma generateTrustReport_report:
  "report (generateTrustReport dns d) =
     report (checkSPF dns d fresh) @
     report (checkDMARC dns d fresh) @
     report (checkNS dns d fresh) @
     report (checkCNAME dns d fresh) @
     report (checkA dns d fresh) @
     report (checkMX dns d fresh)"
  unfolding generateTrustReport_def
  apply (subst report_checkMX, subst report_checkA, subst report_checkCNAME,
         subst report_checkNS, subst report_checkDMARC)
  apply simp
  done

lemma generateTrustReport_queries:
  "queries (generateTrustReport dns d) =
     queries (checkSPF dns d fresh) @
     queries (checkDMARC dns d fresh) @
     queries (checkNS dns d fresh) @
     queries (checkCNAME dns d fresh) @
     queries (checkA dns d fresh) @
     queries (checkMX dns d fresh)"
  unfolding generateTrustReport_def
  apply (subst queries_checkMX, subst queries_checkA, subst queries_checkCNAME,
         subst queries_checkNS, subst queries_checkDMARC)
  apply simp
  done

section \<open>The total is the sum of the score changes\<close>

lemma accounted_checkSPF: "accounted st (checkSPF dns d st)"
  by (simp add: accounted_def checkSPF_def criteria_defs acc_defs Let_def split: sum.splits)

lemma accounted_checkDMARC: "accounted st (checkDMARC dns d st)"
  by (simp add: accounted_def checkDMARC_def criteria_defs acc_defs Let_def split: sum.splits)

lemma accounted_checkNS: "accounted st (checkNS dns d st)"
  by (simp add: accounted_def checkNS_def criteria_defs acc_defs Let_def split: sum.splits)

lemma accounted_checkCNAME: "accounted st (checkCNAME dns d st)"
  by (simp add: accounted_def checkCNAME_def criteria_defs acc_defs Let_def split: sum.splits)

lemma accounted_checkA: "accounted st (checkA dns d st)"
  by (simp add: accounted_def checkA_def criteria_defs acc_defs Let_def split: sum.splits)

lemma accounted_checkMX: "accounted st (checkMX dns d st)"
  by (simp add: accounted_def checkMX_def criteria_defs acc_defs Let_def split: sum.splits)

lemma accounted_sum:
  assumes "accounted st st'"
    and "totalScore st = sum_list (map scoreDelta (report st))"
  shows "totalScore st' = sum_list (map scoreDelta (report st'))"
proof -
  let ?n = "length (report st)"
  have split: "report st' = report st @ drop ?n (report st')"
    using assms(1) append_take_drop_id [of ?n "report st'"] by (simp add: accounted_def)
  have "totalScore st' = totalScore st + sum_list (map scoreDelta (drop ?n (report st')))"
    using assms(1) by (auto simp: accounted_def split: list.splits)
  then show ?thesis
    using assms(2) by (subst split) simp
qed

text \<open>
  C1. For every resolver and domain, the total printed by \<open>generateTrustReport\<close> equals the
  sum of the bracketed score changes of the report's lines. Each of the six blocks, from
  any accumulator, keeps the earlier lines and either appends one line and adds exactly
  that line's score change to the total, or appends nothing and leaves the total alone.
\<close>

theorem C1_total:
  "totalScore (generateTrustReport dns domain) =
     sum_list (map scoreDelta (report (generateTrustReport dns domain)))
   \<and> accounted st (checkSPF dns domain st)
   \<and> accounted st (checkDMARC dns domain st)
   \<and> accounted st (checkNS dns domain st)
   \<and> accounted st (checkCNAME dns domain st)
   \<and> accounted st (checkA dns domain st)
   \<and> accounted st (checkMX dns domain st)"
proof -
  have "totalScore fresh = sum_list (map scoreDelta (report fresh))"
    by (simp add: fresh_def)
  then have "totalScore (generateTrustReport dns domain) =
     sum_list (map scoreDelta (report (generateTrustReport dns domain)))"
    unfolding generateTrustReport_def
    by (intro accounted_sum [OF accounted_checkMX] accounted_sum [OF accounted_checkA]
        accounted_sum [OF accounted_checkCNAME] accounted_sum [OF accounted_checkNS]
        accounted_sum [OF accounted_checkDMARC] accounted_sum [OF accounted_checkSPF])
  then show ?thesis
    by (simp add: accounted_checkSPF accounted_checkDMARC accounted_checkNS
        accounted_checkCNAME accounted_checkA accounted_checkMX)
qed

theorem C1_total_witness:
  "totalScore (generateTrustReport scenario ''example.com'') = 15
   \<and> sum_list (map scoreDelta (report (generateTrustReport scenario ''example.com''))) = 15"
proof -
  have "totalScore (generateTrustReport scenario ''example.com'') = 15"
    by code_simp
  with C1_total [of scenario "''example.com''" fresh] show ?thesis
    by simp
qed

section \<open>String primitives against the library's prefix and sublist\<close>

lemma startsWith_prefix: "startsWith s p \<longleftrightarrow> prefix p s"
proof
  assume "startsWith s p"
  then have "take (length p) s = p" by (simp add: startsWith_def)
  then show "prefix p s" using take_is_prefix [of "length p" s] by simp
next
  assume "prefix p s"
  then obtain zs where "s = p @ zs" by (auto simp: prefix_def)
  then show "startsWith s p" by (simp add: startsWith_def)
qed

lemma includes_str_sublist: "includes_str s p \<longleftrightarrow> sublist p s"
proof
  assume "includes_str s p"
  then have "\<exists>i \<in> set [0..<Suc (length s)]. prefix p (drop i s)"
    unfolding includes_str_def list_ex_iff startsWith_prefix .
  then obtain i where "prefix p (drop i s)"
    by blast
  then obtain zs where "drop i s = p @ zs" by (auto simp: prefix_def)
  then have "s = take i s @ p @ zs" using append_take_drop_id [of i s] by simp
  then show "sublist p s" unfolding sublist_def by blast
next
  assume "sublist p s"
  then obtain ps ss where s: "s = ps @ p @ ss" by (auto simp: sublist_def)
  have "length ps \<le> length s" and "prefix p (drop (length ps) s)"
    by (simp_all add: s)
  then show "includes_str s p"
    unfolding includes_str_def list_ex_iff startsWith_prefix
    by (intro bexI [of _ "length ps"]) auto
qed

lemma join_empty_separator: "join xs [] = concat xs"
  by (induction xs "[]::string" rule: join.induct) simp_all

section \<open>Which checks have a line in the report\<close>

lemma kinds_checkSPF: "kinds (checkSPF dns d fresh) = [SPF]"
  by (simp add: kinds_def checkSPF_def criteria_defs acc_defs Let_def split: sum.splits)

lemma kinds_checkDMARC: "kinds (checkDMARC dns d fresh) = [DMARC]"
  by (simp add: kinds_def checkDMARC_def criteria_defs acc_defs Let_def split: sum.splits)

lemma kinds_checkNS: "kinds (checkNS dns d fresh) = [NS]"
  by (simp add: kinds_def checkNS_def criteria_defs acc_defs Let_def split: sum.splits)

lemma kinds_checkCNAME: "kinds (checkCNAME dns d fresh) = [CNAME]"
  by (simp add: kinds_def checkCNAME_def criteria_defs acc_defs Let_def split: sum.splits)

lemma kinds_checkMX: "kinds (checkMX dns d fresh) = [MX]"
  by (simp add: kinds_def checkMX_def criteria_defs acc_defs Let_def split: sum.splits)

lemma kinds_checkA:
  "kinds (checkA dns d fresh) =
     (case resolve4 dns d of
        Inr aRecords \<Rightarrow> [A]
      | Inl e \<Rightarrow> if failure_class_of e = Transient then [A] else [])"
  by (simp add: kinds_def checkA_def criteria_defs acc_defs failure_class_of_def Let_def
      split: sum.splits)

lemma kinds_generateTrustReport:
  "kinds (generateTrustReport dns d) =
     kinds (checkSPF dns d fresh) @ kinds (checkDMARC dns d fresh) @
     kinds (checkNS dns d fresh) @ kinds (checkCNAME dns d fresh) @
     kinds (checkA dns d fresh) @ kinds (checkMX dns d fresh)"
  by (simp add: kinds_def generateTrustReport_report)

text \<open>
  C2 (amended). For every resolver and domain, the report holds one line per check, in
  the order SPF, DMARC, NS, CNAME, A, MX, except that the A line is left out when the A
  query fails with \<open>ENOTFOUND\<close> or \<open>ENODATA\<close>: the report then has the five lines SPF,
  DMARC, NS, CNAME, MX. A line for A is present when the A query answers (with any list,
  the empty one included) or fails with any other error.
\<close>

theorem C2_kinds_amended:
  "kinds (generateTrustReport dns domain) =
     [SPF, DMARC, NS, CNAME] @
     (case resolve4 dns domain of
        Inr aRecords \<Rightarrow> [A]
      | Inl e \<Rightarrow> if failure_class_of e = Transient then [A] else []) @
     [MX]"
  by (simp add: kinds_generateTrustReport kinds_checkSPF kinds_checkDMARC kinds_checkNS
      kinds_checkCNAME kinds_checkA kinds_checkMX)

theorem C2_kinds_amended_witness:
  "kinds (generateTrustReport scenario ''example.com'') = [SPF, DMARC, NS, CNAME, A, MX]
   \<and> kinds (generateTrustReport (failing ''ETIMEOUT'') ''example.com'') =
       [SPF, DMARC, NS, CNAME, A, MX]
   \<and> kinds (generateTrustReport (failing ''ENODATA'') ''example.com'') =
       [SPF, DMARC, NS, CNAME, MX]"
  using C2_kinds_amended [of scenario "''example.com''"]
    C2_kinds_amended [of "failing ''ETIMEOUT''" "''example.com''"]
    C2_kinds_amended [of "failing ''ENODATA''" "''example.com''"]
  by (simp add: scenario_def failing_def failure_class_of_def)

text \<open>
  The claim C2 as stated fails: when the A query is rejected with \<open>ENOTFOUND\<close>, the
  \<open>catch\<close> of the fifth block pushes nothing, and the report has five lines, none for A.
\<close>

theorem C2_omitted_A_counterexample:
  "resolve4 (failing ''ENOTFOUND'') ''example.com'' =
     Inl \<lparr>code = Some ''ENOTFOUND'', error_message = ''query failed''\<rparr>
   \<and> length (report (generateTrustReport (failing ''ENOTFOUND'') ''example.com'')) = 5
   \<and> kinds (generateTrustReport (failing ''ENOTFOUND'') ''example.com'') =
       [SPF, DMARC, NS, CNAME, MX]
   \<and> kinds (generateTrustReport (failing ''ENOTFOUND'') ''example.com'') \<noteq>
       [SPF, DMARC, NS, CNAME, A, MX]"
  by code_simp

section \<open>The queries issued and the place of each line\<close>

lemma queries_checkSPF_fresh: "queries (checkSPF dns d fresh) = [Q_resolveTxt d]"
  by (simp add: checkSPF_def acc_defs Let_def split: sum.splits)

lemma queries_checkDMARC_fresh:
  "queries (checkDMARC dns d fresh) = [Q_resolveTxt (''_dmarc.'' @ d)]"
  by (simp add: checkDMARC_def acc_defs Let_def split: sum.splits)

lemma queries_checkNS_fresh: "queries (checkNS dns d fresh) = [Q_resolveNs d]"
  by (simp add: checkNS_def acc_defs Let_def split: sum.splits)

lemma queries_checkCNAME_fresh:
  "queries (checkCNAME dns d fresh) = [Q_resolveCname (''www.'' @ d)]"
  by (simp add: checkCNAME_def acc_defs Let_def split: sum.splits)

lemma queries_checkMX_fresh: "queries (checkMX dns d fresh) = [Q_resolveMx d]"
  by (simp add: checkMX_def acc_defs Let_def split: sum.splits)

lemma queries_checkA_fresh:
  "queries (checkA dns d fresh) =
     Q_resolve4 d #
     (case resolve4 dns d of
        Inr aRecords \<Rightarrow>
          if 0 < length aRecords \<and> length aRecords < 5 then map Q_reverse aRecords else []
      | Inl e \<Rightarrow> [])"
  by (simp add: checkA_def acc_defs Let_def split: sum.splits)

lemma all_queries:
  "queries (generateTrustReport dns d) =
     [Q_resolveTxt d, Q_resolveTxt (''_dmarc.'' @ d), Q_resolveNs d,
      Q_resolveCname (''www.'' @ d), Q_resolve4 d] @
     (case resolve4 dns d of
        Inr aRecords \<Rightarrow>
          if 0 < length aRecords \<and> length aRecords < 5 then map Q_reverse aRecords else []
      | Inl e \<Rightarrow> []) @
     [Q_resolveMx d]"
  by (simp add: generateTrustReport_queries queries_checkSPF_fresh queries_checkDMARC_fresh
      queries_checkNS_fresh queries_checkCNAME_fresh queries_checkA_fresh
      queries_checkMX_fresh)

lemma length_report_SPF: "length (report (checkSPF dns d fresh)) = 1"
  using kinds_checkSPF [of dns d] arg_cong [of _ _ length] by (fastforce simp: kinds_def)

lemma length_report_DMARC: "length (report (checkDMARC dns d fresh)) = 1"
  using kinds_checkDMARC [of dns d] arg_cong [of _ _ length] by (fastforce simp: kinds_def)

lemma length_report_NS: "length (report (checkNS dns d fresh)) = 1"
  using kinds_checkNS [of dns d] arg_cong [of _ _ length] by (fastforce simp: kinds_def)

lemma length_report_CNAME: "length (report (checkCNAME dns d fresh)) = 1"
  using kinds_checkCNAME [of dns d] arg_cong [of _ _ length] by (fastforce simp: kinds_def)

lemma length_report_MX: "length (report (checkMX dns d fresh)) = 1"
  using kinds_checkMX [of dns d] arg_cong [of _ _ length] by (fastforce simp: kinds_def)

text \<open>Where a block's line sits in the finished report.\<close>

lemma first_line: "hd (report (generateTrustReport dns d)) = hd (report (checkSPF dns d fresh))"
  using length_report_SPF [of dns d]
  by (cases "report (checkSPF dns d fresh)") (simp_all add: generateTrustReport_report)

lemma fourth_line:
  "report (generateTrustReport dns d) ! 3 = hd (report (checkCNAME dns d fresh))"
  using length_report_SPF [of dns d] length_report_DMARC [of dns d]
    length_report_NS [of dns d] length_report_CNAME [of dns d]
  by (cases "report (checkCNAME dns d fresh)")
     (simp_all add: generateTrustReport_report nth_append)

lemma fifth_line:
  "report (checkA dns d fresh) = [f] \<Longrightarrow> report (generateTrustReport dns d) ! 4 = f"
  using length_report_SPF [of dns d] length_report_DMARC [of dns d]
    length_report_NS [of dns d] length_report_CNAME [of dns d]
  by (simp add: generateTrustReport_report nth_append)

lemma last_line:
  "last (report (generateTrustReport dns d)) = hd (report (checkMX dns d fresh))"
  using length_report_MX [of dns d]
  by (cases "report (checkMX dns d fresh)") (simp_all add: generateTrustReport_report)

section \<open>Failures that are not absences\<close>

lemma transient_SPF:
  "transient_failure (resolveTxt dns d) \<Longrightarrow>
     totalScore (checkSPF dns d fresh) = 0 \<and>
     map (\<lambda>f. (emoji f, scoreDelta f)) (report (checkSPF dns d fresh)) = [(Warning_sign, 0)]"
  by (auto simp: transient_failure_def failure_class_of_def checkSPF_def acc_defs Let_def
      split: sum.splits if_splits)

lemma transient_DMARC:
  "transient_failure (resolveTxt dns (''_dmarc.'' @ d)) \<Longrightarrow>
     totalScore (checkDMARC dns d fresh) = 0 \<and>
     map (\<lambda>f. (emoji f, scoreDelta f)) (report (checkDMARC dns d fresh)) = [(Warning_sign, 0)]"
  by (auto simp: transient_failure_def failure_class_of_def checkDMARC_def acc_defs Let_def
      split: sum.splits if_splits)

lemma transient_NS:
  "transient_failure (resolveNs dns d) \<Longrightarrow>
     totalScore (checkNS dns d fresh) = 0 \<and>
     map (\<lambda>f. (emoji f, scoreDelta f)) (report (checkNS dns d fresh)) = [(Warning_sign, 0)]"
  by (auto simp: transient_failure_def failure_class_of_def checkNS_def acc_defs Let_def
      split: sum.splits if_splits)

lemma transient_CNAME:
  "transient_failure (resolveCname dns (''www.'' @ d)) \<Longrightarrow>
     totalScore (checkCNAME dns d fresh) = 0 \<and>
     map (\<lambda>f. (emoji f, scoreDelta f)) (report (checkCNAME dns d fresh)) = [(Warning_sign, 0)]"
  by (auto simp: transient_failure_def failure_class_of_def checkCNAME_def acc_defs Let_def
      split: sum.splits if_splits)

lemma transient_A:
  "transient_failure (resolve4 dns d) \<Longrightarrow>
     totalScore (checkA dns d fresh) = 0 \<and>
     map (\<lambda>f. (emoji f, scoreDelta f)) (report (checkA dns d fresh)) = [(Warning_sign, 0)]"
  by (auto simp: transient_failure_def failure_class_of_def checkA_def acc_defs Let_def
      split: sum.splits if_splits)

lemma transient_MX:
  "transient_failure (resolveMx dns d) \<Longrightarrow>
     totalScore (checkMX dns d fresh) = 0 \<and>
     map (\<lambda>f. (emoji f, scoreDelta f)) (report (checkMX dns d fresh)) = [(Warning_sign, 0)]"
  by (auto simp: transient_failure_def failure_class_of_def checkMX_def acc_defs Let_def
      split: sum.splits if_splits)

text \<open>
  C3. If each of the six primary queries (TXT of the domain, TXT of \<open>_dmarc.\<close>domain, NS,
  CNAME of \<open>www.\<close>domain, A, MX) fails with an error whose code is neither \<open>ENOTFOUND\<close>
  nor \<open>ENODATA\<close>, then the total is 0 and the report has six lines, one per check in the
  fixed order, each a warning with score change 0.
\<close>

theorem C3_all_transient:
  assumes "transient_failure (resolveTxt dns domain)"
    and "transient_failure (resolveTxt dns (''_dmarc.'' @ domain))"
    and "transient_failure (resolveNs dns domain)"
    and "transient_failure (resolveCname dns (''www.'' @ domain))"
    and "transient_failure (resolve4 dns domain)"
    and "transient_failure (resolveMx dns domain)"
  shows "totalScore (generateTrustReport dns domain) = 0
    \<and> map (\<lambda>f. (emoji f, scoreDelta f)) (report (generateTrustReport dns domain)) =
        replicate 6 (Warning_sign, 0)
    \<and> kinds (generateTrustReport dns domain) = [SPF, DMARC, NS, CNAME, A, MX]"
proof -
  have "kinds (checkA dns domain fresh) = [A]"
    using assms(5) by (auto simp: kinds_checkA transient_failure_def split: sum.splits)
  then have "kinds (generateTrustReport dns domain) = [SPF, DMARC, NS, CNAME, A, MX]"
    by (simp add: kinds_generateTrustReport kinds_checkSPF kinds_checkDMARC kinds_checkNS
        kinds_checkCNAME kinds_checkMX)
  moreover have "totalScore (generateTrustReport dns domain) = 0"
    using transient_SPF [OF assms(1)] transient_DMARC [OF assms(2)] transient_NS [OF assms(3)]
      transient_CNAME [OF assms(4)] transient_A [OF assms(5)] transient_MX [OF assms(6)]
    by (simp add: generateTrustReport_totalScore)
  moreover have "map (\<lambda>f. (emoji f, scoreDelta f)) (report (generateTrustReport dns domain)) =
        replicate 6 (Warning_sign, 0)"
    using transient_SPF [OF assms(1)] transient_DMARC [OF assms(2)] transient_NS [OF assms(3)]
      transient_CNAME [OF assms(4)] transient_A [OF assms(5)] transient_MX [OF assms(6)]
    by (simp add: generateTrustReport_report numeral_eq_Suc)
  ultimately show ?thesis by simp
qed

theorem C3_all_transient_witness:
  "transient_failure (resolveTxt (failing ''ETIMEOUT'') ''example.com'')
   \<and> transient_failure (resolveTxt (failing ''ETIMEOUT'') (''_dmarc.'' @ ''example.com''))
   \<and> transient_failure (resolveNs (failing ''ETIMEOUT'') ''example.com'')
   \<and> transient_failure (resolveCname (failing ''ETIMEOUT'') (''www.'' @ ''example.com''))
   \<and> transient_failure (resolve4 (failing ''ETIMEOUT'') ''example.com'')
   \<and> transient_failure (resolveMx (failing ''ETIMEOUT'') ''example.com'')
   \<and> totalScore (generateTrustReport (failing ''ETIMEOUT'') ''example.com'') = 0
   \<and> map (\<lambda>f. (emoji f, scoreDelta f))
         (report (generateTrustReport (failing ''ETIMEOUT'') ''example.com'')) =
       replicate 6 (Warning_sign, 0)
   \<and> kinds (generateTrustReport (failing ''ETIMEOUT'') ''example.com'') =
       [SPF, DMARC, NS, CNAME, A, MX]"
proof -
  have t: "transient_failure (resolveTxt (failing ''ETIMEOUT'') ''example.com'')"
    "transient_failure (resolveTxt (failing ''ETIMEOUT'') (''_dmarc.'' @ ''example.com''))"
    "transient_failure (resolveNs (failing ''ETIMEOUT'') ''example.com'')"
    "transient_failure (resolveCname (failing ''ETIMEOUT'') (''www.'' @ ''example.com''))"
    "transient_failure (resolve4 (failing ''ETIMEOUT'') ''example.com'')"
    "transient_failure (resolveMx (failing ''ETIMEOUT'') ''example.com'')"
    by (simp_all add: transient_failure_def failure_class_of_def failing_def)
  from t C3_all_transient [OF t] show ?thesis
    by blast
qed

section \<open>Address stability\<close>

lemma checkA_many:
  assumes "resolve4 dns d = Inr aRecords" and "5 \<le> length aRecords"
  shows "checkA dns d st =
     st\<lparr>totalScore := totalScore st - 10,
        report := report st @
          [\<lparr>emoji = Cross_mark, scoreDelta = - 10,
            body = Criterion_ip_count (A, unstable) (length aRecords)\<rparr>],
        queries := queries st @ [Q_resolve4 d]\<rparr>"
proof -
  have "aRecords \<noteq> []" using assms(2) by auto
  with assms show ?thesis
    by (simp add: checkA_def criteria_defs acc_defs Let_def)
qed

lemma queries_many:
  assumes "resolve4 dns d = Inr aRecords" and "5 \<le> length aRecords"
  shows "queries (generateTrustReport dns d) =
     [Q_resolveTxt d, Q_resolveTxt (''_dmarc.'' @ d), Q_resolveNs d,
      Q_resolveCname (''www.'' @ d), Q_resolve4 d, Q_resolveMx d]"
  using assms by (simp add: all_queries)

text \<open>
  C4. If the A query answers with a list holding at least five distinct addresses, the
  fifth block subtracts 10, appends the fast-flux line with score change -10 (the fifth
  line of the report), and issues no reverse lookup: the A query is the block's only query,
  and the whole analysis issues the six primary queries and nothing else.
\<close>

theorem C4_many_addresses:
  assumes "resolve4 dns domain = Inr aRecords" and "5 \<le> card (set aRecords)"
  shows "checkA dns domain st =
     st\<lparr>totalScore := totalScore st - 10,
        report := report st @
          [\<lparr>emoji = Cross_mark, scoreDelta = - 10,
            body = Criterion_ip_count (A, unstable) (length aRecords)\<rparr>],
        queries := queries st @ [Q_resolve4 domain]\<rparr>
   \<and> report (generateTrustReport dns domain) ! 4 =
       \<lparr>emoji = Cross_mark, scoreDelta = - 10,
         body = Criterion_ip_count (A, unstable) (length aRecords)\<rparr>
   \<and> queries (generateTrustReport dns domain) =
       [Q_resolveTxt domain, Q_resolveTxt (''_dmarc.'' @ domain), Q_resolveNs domain,
        Q_resolveCname (''www.'' @ domain), Q_resolve4 domain, Q_resolveMx domain]
   \<and> (\<forall>ip. Q_reverse ip \<notin> set (queries (generateTrustReport dns domain)))"
proof -
  have len: "5 \<le> length aRecords"
    using assms(2) card_length [of aRecords] by simp
  have "report (checkA dns domain fresh) =
      [\<lparr>emoji = Cross_mark, scoreDelta = - 10,
        body = Criterion_ip_count (A, unstable) (length aRecords)\<rparr>]"
    by (simp add: checkA_many [OF assms(1) len] fresh_def)
  then show ?thesis
    using checkA_many [OF assms(1) len, of st] queries_many [OF assms(1) len]
    by (simp add: fifth_line)
qed

theorem C4_many_addresses_witness:
  "5 \<le> card (set [''192.0.2.1'', ''192.0.2.2'', ''192.0.2.3'', ''192.0.2.4'', ''192.0.2.5''])
   \<and> checkA (flux [''192.0.2.1'', ''192.0.2.2'', ''192.0.2.3'', ''192.0.2.4'', ''192.0.2.5''])
       ''example.com'' fresh =
       \<lparr>totalScore = - 10,
        report = [\<lparr>emoji = Cross_mark, scoreDelta = - 10,
                   body = Criterion_ip_count (A, unstable) 5\<rparr>],
        queries = [Q_resolve4 ''example.com'']\<rparr>
   \<and> queries (generateTrustReport
        (flux [''192.0.2.1'', ''192.0.2.2'', ''192.0.2.3'', ''192.0.2.4'', ''192.0.2.5''])
        ''example.com'') =
       [Q_resolveTxt ''example.com'', Q_resolveTxt ''_dmarc.example.com'',
        Q_resolveNs ''example.com'', Q_resolveCname ''www.example.com'',
        Q_resolve4 ''example.com'', Q_resolveMx ''example.com'']"
proof -
  let ?as = "[''192.0.2.1'', ''192.0.2.2'', ''192.0.2.3'', ''192.0.2.4'', ''192.0.2.5'']"
  have r: "resolve4 (flux ?as) ''example.com'' = Inr ?as"
    by (simp add: flux_def)
  have c: "5 \<le> card (set ?as)"
    by simp
  from c C4_many_addresses [OF r c, of fresh] show ?thesis
    by (simp add: fresh_def)
qed

text \<open>
  C10. The fast-flux penalty depends on the length of the answer alone: whenever the A
  query answers with a list of length at least five, whatever its elements, the fifth
  block subtracts 10 and appends the -10 line. The list is not deduplicated, so five
  copies of one address are penalised too.
\<close>

theorem C10_length_alone:
  assumes "resolve4 dns domain = Inr aRecords" and "5 \<le> length aRecords"
  shows "checkA dns domain st =
     st\<lparr>totalScore := totalScore st - 10,
        report := report st @
          [\<lparr>emoji = Cross_mark, scoreDelta = - 10,
            body = Criterion_ip_count (A, unstable) (length aRecords)\<rparr>],
        queries := queries st @ [Q_resolve4 domain]\<rparr>
   \<and> report (generateTrustReport dns domain) ! 4 =
       \<lparr>emoji = Cross_mark, scoreDelta = - 10,
         body = Criterion_ip_count (A, unstable) (length aRecords)\<rparr>"
proof -
  have "report (checkA dns domain fresh) =
      [\<lparr>emoji = Cross_mark, scoreDelta = - 10,
        body = Criterion_ip_count (A, unstable) (length aRecords)\<rparr>]"
    by (simp add: checkA_many [OF assms] fresh_def)
  then show ?thesis
    using checkA_many [OF assms, of st] by (simp add: fifth_line)
qed

theorem C10_length_alone_witness:
  "card (set (replicate 5 ''192.0.2.1'')) = 1
   \<and> checkA (flux (replicate 5 ''192.0.2.1'')) ''example.com'' fresh =
       \<lparr>totalScore = - 10,
        report = [\<lparr>emoji = Cross_mark, scoreDelta = - 10,
                   body = Criterion_ip_count (A, unstable) 5\<rparr>],
        queries = [Q_resolve4 ''example.com'']\<rparr>
   \<and> report (generateTrustReport (flux (replicate 5 ''192.0.2.1'')) ''example.com'') ! 4 =
       \<lparr>emoji = Cross_mark, scoreDelta = - 10, body = Criterion_ip_count (A, unstable) 5\<rparr>"
proof -
  have r: "resolve4 (flux (replicate 5 ''192.0.2.1'')) ''example.com'' =
      Inr (replicate 5 ''192.0.2.1'')"
    by (simp add: flux_def)
  have l: "5 \<le> length (replicate 5 ''192.0.2.1'')"
    by simp
  from C10_length_alone [OF r l, of fresh] show ?thesis
    by (simp add: fresh_def)
qed

lemma provider_nonempty: "p \<in> set RELIABLE_IP_PROVIDERS \<Longrightarrow> p \<noteq> []"
  by (auto simp: RELIABLE_IP_PROVIDERS_def)

lemma ptr_matches_iff:
  assumes "p \<in> set RELIABLE_IP_PROVIDERS"
  shows "ptr_matches (reverse_caught dns ip) p \<longleftrightarrow>
     (\<exists>h hs. reverse dns ip = Inr (h # hs) \<and> sublist p (toLowerCase h))"
proof (cases "reverse dns ip")
  case (Inl e)
  then show ?thesis by (simp add: ptr_matches_def reverse_caught_def)
next
  case (Inr names)
  show ?thesis
  proof (cases names)
    case Nil
    with Inr show ?thesis by (simp add: ptr_matches_def reverse_caught_def)
  next
    case (Cons h hs)
    have "sublist p (toLowerCase h) \<Longrightarrow> h \<noteq> []"
      using provider_nonempty [OF assms] by (auto simp: toLowerCase_def)
    with Inr Cons show ?thesis
      by (auto simp: ptr_matches_def reverse_caught_def includes_str_sublist)
  qed
qed

lemma isStableIp_iff:
  "list_ex (\<lambda>p. list_ex (\<lambda>provider. ptr_matches p provider) RELIABLE_IP_PROVIDERS)
      (map (reverse_caught dns) aRecords) \<longleftrightarrow>
   (\<exists>ip \<in> set aRecords. \<exists>h hs. reverse dns ip = Inr (h # hs) \<and>
      (\<exists>p \<in> set RELIABLE_IP_PROVIDERS. sublist p (toLowerCase h)))"
  unfolding list_ex_iff using ptr_matches_iff by fastforce

text \<open>
  C5 (amended). If the A query answers with one to four addresses, a reverse lookup is
  issued for each address, in order, and a rejected one counts as the empty string without
  stopping the others or changing the score. The block adds 5 and appends the stable
  line exactly when, for some address, the first host name of its reverse answer, in
  lower case, contains one of \<open>amazonaws\<close>, \<open>azure\<close>, \<open>google\<close>; otherwise it appends an
  informational line with score change 0 and leaves the total alone. Host names after the
  first one of an answer are listed in the line but are not examined.
\<close>

theorem C5_few_addresses_amended:
  assumes "resolve4 dns domain = Inr aRecords"
    and "1 \<le> length aRecords" and "length aRecords \<le> 4"
  shows
    "(let first_name_known =
            (\<exists>ip \<in> set aRecords. \<exists>h hs. reverse dns ip = Inr (h # hs) \<and>
               (\<exists>p \<in> set RELIABLE_IP_PROVIDERS. sublist p (toLowerCase h)));
          ptr_names = join (flat (map (reverse_caught dns) aRecords)) '', ''
      in checkA dns domain st =
           st\<lparr>totalScore := totalScore st + (if first_name_known then 5 else 0),
              report := report st @
                [if first_name_known
                 then \<lparr>emoji = Check_mark, scoreDelta = 5,
                        body = Criterion_ptr (A, stable) ptr_names\<rparr>
                 else \<lparr>emoji = Information, scoreDelta = 0,
                        body = Not_cloud_provider
                                 (if ptr_names = [] then ''N/A'' else ptr_names)\<rparr>],
              queries := queries st @ Q_resolve4 domain # map Q_reverse aRecords\<rparr>)"
proof -
  have ne: "aRecords \<noteq> []" using assms(2) by auto
  have lt: "\<not> 5 \<le> length aRecords" using assms(3) by simp
  show ?thesis
    unfolding Let_def isStableIp_iff [symmetric]
    using assms(1) ne lt
    by (simp add: checkA_def criteria_defs acc_defs Let_def)
qed

theorem C5_few_addresses_amended_witness:
  "checkA cloud ''example.com'' fresh =
     \<lparr>totalScore = 5,
      report = [\<lparr>emoji = Check_mark, scoreDelta = 5,
                 body = Criterion_ptr (A, stable) '', EC2.AmazonAWS.com''\<rparr>],
      queries = [Q_resolve4 ''example.com'', Q_reverse ''192.0.2.1'', Q_reverse ''192.0.2.2'']\<rparr>
   \<and> checkA scenario ''example.com'' fresh =
     \<lparr>totalScore = 0,
      report = [\<lparr>emoji = Information, scoreDelta = 0, body = Not_cloud_provider '', ''\<rparr>],
      queries = [Q_resolve4 ''example.com'', Q_reverse ''192.0.2.1'', Q_reverse ''192.0.2.2'']\<rparr>"
proof -
  have r: "resolve4 cloud ''example.com'' = Inr [''192.0.2.1'', ''192.0.2.2'']"
    "resolve4 scenario ''example.com'' = Inr [''192.0.2.1'', ''192.0.2.2'']"
    by (simp_all add: cloud_def scenario_def)
  have l: "1 \<le> length [''192.0.2.1'', ''192.0.2.2'']" "length [''192.0.2.1'', ''192.0.2.2''] \<le> 4"
    by simp_all
  have a: "sublist ''amazonaws'' (toLowerCase ''EC2.AmazonAWS.com'')"
    by code_simp
  have c: "reverse cloud ''192.0.2.2'' = Inr [''EC2.AmazonAWS.com'']"
    "reverse cloud ''192.0.2.1'' = Inl \<lparr>code = Some ''ENOTFOUND'', error_message = ''no PTR''\<rparr>"
    by (simp_all add: cloud_def)
  have s: "reverse scenario ip = Inl \<lparr>code = Some ''ENOTFOUND'', error_message = ''getHostByAddr ENOTFOUND''\<rparr>" for ip
    by (simp add: scenario_def)
  from C5_few_addresses_amended [OF r(1) l, of fresh]
    C5_few_addresses_amended [OF r(2) l, of fresh] a
  show ?thesis
    by (simp add: Let_def c s reverse_caught_def fresh_def RELIABLE_IP_PROVIDERS_def)
qed

text \<open>
  The claim C5 as stated fails: a reverse answer whose second host name contains
  \<open>amazonaws\<close> while its first one names no provider is classified as unknown, with
  score change 0.
\<close>

theorem C5_second_name_counterexample:
  "resolve4 second_name ''example.com'' = Inr [''192.0.2.1'']
   \<and> reverse second_name ''192.0.2.1'' = Inr [''host.example.net'', ''ec2.amazonaws.com'']
   \<and> sublist ''amazonaws'' (toLowerCase ''ec2.amazonaws.com'')
   \<and> checkA second_name ''example.com'' fresh =
       \<lparr>totalScore = 0,
        report = [\<lparr>emoji = Information, scoreDelta = 0,
                   body = Not_cloud_provider ''host.example.net, ec2.amazonaws.com''\<rparr>],
        queries = [Q_resolve4 ''example.com'', Q_reverse ''192.0.2.1'']\<rparr>"
  by code_simp

section \<open>CNAME, SPF and MX outcomes\<close>

text \<open>
  C6. The fourth block queries the CNAME of \<open>www.\<close>domain and appends exactly one line,
  the fourth of the report: +5 (resolves normally) when the query answers, -15 (target
  unreachable) when it fails with \<open>ENOTFOUND\<close>, an informational line with score change 0
  when it fails with \<open>ENODATA\<close>, and a warning with score change 0, carrying the error's
  message, on any other failure. The total changes by the score change of the line.
\<close>

theorem C6_cname:
  "(let f = (case resolveCname dns (''www.'' @ domain) of
               Inr cnames \<Rightarrow>
                 \<lparr>emoji = Check_mark, scoreDelta = 5, body = Criterion (CNAME, normal)\<rparr>
             | Inl e \<Rightarrow>
                 (case failure_class_of e of
                    NotFound \<Rightarrow>
                      \<lparr>emoji = Cross_mark, scoreDelta = - 15,
                       body = Criterion (CNAME, deprecated)\<rparr>
                  | NoData \<Rightarrow>
                      \<lparr>emoji = Information, scoreDelta = 0, body = No_cname_record\<rparr>
                  | Transient \<Rightarrow>
                      \<lparr>emoji = Warning_sign, scoreDelta = 0,
                       body = Lookup_error CNAME (error_message e)\<rparr>))
    in checkCNAME dns domain st =
         st\<lparr>totalScore := totalScore st + scoreDelta f,
            report := report st @ [f],
            queries := queries st @ [Q_resolveCname (''www.'' @ domain)]\<rparr>
       \<and> report (generateTrustReport dns domain) ! 3 = f)"
proof -
  have step: "checkCNAME dns domain s =
      s\<lparr>totalScore := totalScore s + scoreDelta f,
        report := report s @ [f],
        queries := queries s @ [Q_resolveCname (''www.'' @ domain)]\<rparr>"
    if "f = (case resolveCname dns (''www.'' @ domain) of
               Inr cnames \<Rightarrow>
                 \<lparr>emoji = Check_mark, scoreDelta = 5, body = Criterion (CNAME, normal)\<rparr>
             | Inl e \<Rightarrow>
                 (case failure_class_of e of
                    NotFound \<Rightarrow>
                      \<lparr>emoji = Cross_mark, scoreDelta = - 15,
                       body = Criterion (CNAME, deprecated)\<rparr>
                  | NoData \<Rightarrow>
                      \<lparr>emoji = Information, scoreDelta = 0, body = No_cname_record\<rparr>
                  | Transient \<Rightarrow>
                      \<lparr>emoji = Warning_sign, scoreDelta = 0,
                       body = Lookup_error CNAME (error_message e)\<rparr>))" for f s
    unfolding that
    by (simp add: checkCNAME_def criteria_defs acc_defs failure_class_of_def Let_def
        split: sum.splits)
  show ?thesis
    unfolding Let_def
    by (rule conjI, rule step [OF refl], subst fourth_line, subst step [OF refl])
       (simp add: fresh_def)
qed

theorem C6_cname_witness:
  "report (checkCNAME (cname_answer (Inr [''target.example.net''])) ''example.com'' fresh) =
     [\<lparr>emoji = Check_mark, scoreDelta = 5, body = Criterion (CNAME, normal)\<rparr>]
   \<and> report (checkCNAME
        (cname_answer (Inl \<lparr>code = Some ''ENOTFOUND'', error_message = ''queryCname ENOTFOUND''\<rparr>))
        ''example.com'' fresh) =
     [\<lparr>emoji = Cross_mark, scoreDelta = - 15, body = Criterion (CNAME, deprecated)\<rparr>]
   \<and> report (checkCNAME
        (cname_answer (Inl \<lparr>code = Some ''ENODATA'', error_message = ''queryCname ENODATA''\<rparr>))
        ''example.com'' fresh) =
     [\<lparr>emoji = Information, scoreDelta = 0, body = No_cname_record\<rparr>]
   \<and> report (checkCNAME
        (cname_answer (Inl \<lparr>code = Some ''ETIMEOUT'', error_message = ''queryCname ETIMEOUT''\<rparr>))
        ''example.com'' fresh) =
     [\<lparr>emoji = Warning_sign, scoreDelta = 0,
       body = Lookup_error CNAME ''queryCname ETIMEOUT''\<rparr>]"
  using C6_cname [of "cname_answer (Inr [''target.example.net''])" "''example.com''" fresh]
    C6_cname [of "cname_answer (Inl \<lparr>code = Some ''ENOTFOUND'', error_message = ''queryCname ENOTFOUND''\<rparr>)"
      "''example.com''" fresh]
    C6_cname [of "cname_answer (Inl \<lparr>code = Some ''ENODATA'', error_message = ''queryCname ENODATA''\<rparr>)"
      "''example.com''" fresh]
    C6_cname [of "cname_answer (Inl \<lparr>code = Some ''ETIMEOUT'', error_message = ''queryCname ETIMEOUT''\<rparr>)"
      "''example.com''" fresh]
  by (simp add: Let_def cname_answer_def failure_class_of_def fresh_def)

text \<open>
  C7. The first block queries the TXT records of the domain and appends exactly one line,
  the first of the report: +10 (present) exactly when some returned record, its segments
  concatenated, starts with \<open>v=spf1\<close>; -10 (absent) when no record does, or when the query
  fails with \<open>ENOTFOUND\<close> or \<open>ENODATA\<close>; a warning with score change 0 on any other
  failure. The total changes by the score change of the line.
\<close>

theorem C7_spf:
  "(let f = (case resolveTxt dns domain of
               Inr spfRecords \<Rightarrow>
                 if \<exists>rec \<in> set spfRecords. prefix ''v=spf1'' (concat rec)
                 then \<lparr>emoji = Check_mark, scoreDelta = 10, body = Criterion (SPF, exists)\<rparr>
                 else \<lparr>emoji = Cross_mark, scoreDelta = - 10,
                        body = Criterion (SPF, not_exists)\<rparr>
             | Inl e \<Rightarrow>
                 (case failure_class_of e of
                    NotFound \<Rightarrow>
                      \<lparr>emoji = Cross_mark, scoreDelta = - 10,
                       body = Criterion (SPF, not_exists)\<rparr>
                  | NoData \<Rightarrow>
                      \<lparr>emoji = Cross_mark, scoreDelta = - 10,
                       body = Criterion (SPF, not_exists)\<rparr>
                  | Transient \<Rightarrow>
                      \<lparr>emoji = Warning_sign, scoreDelta = 0,
                       body = Lookup_error SPF (error_message e)\<rparr>))
    in checkSPF dns domain st =
         st\<lparr>totalScore := totalScore st + scoreDelta f,
            report := report st @ [f],
            queries := queries st @ [Q_resolveTxt domain]\<rparr>
       \<and> hd (report (generateTrustReport dns domain)) = f)"
proof -
  have step: "checkSPF dns domain s =
      s\<lparr>totalScore := totalScore s + scoreDelta f,
        report := report s @ [f],
        queries := queries s @ [Q_resolveTxt domain]\<rparr>"
    if "f = (case resolveTxt dns domain of
               Inr spfRecords \<Rightarrow>
                 if \<exists>rec \<in> set spfRecords. prefix ''v=spf1'' (concat rec)
                 then \<lparr>emoji = Check_mark, scoreDelta = 10, body = Criterion (SPF, exists)\<rparr>
                 else \<lparr>emoji = Cross_mark, scoreDelta = - 10,
                        body = Criterion (SPF, not_exists)\<rparr>
             | Inl e \<Rightarrow>
                 (case failure_class_of e of
                    NotFound \<Rightarrow>
                      \<lparr>emoji = Cross_mark, scoreDelta = - 10,
                       body = Criterion (SPF, not_exists)\<rparr>
                  | NoData \<Rightarrow>
                      \<lparr>emoji = Cross_mark, scoreDelta = - 10,
                       body = Criterion (SPF, not_exists)\<rparr>
                  | Transient \<Rightarrow>
                      \<lparr>emoji = Warning_sign, scoreDelta = 0,
                       body = Lookup_error SPF (error_message e)\<rparr>))" for f s
    unfolding that
    by (simp add: checkSPF_def criteria_defs acc_defs failure_class_of_def Let_def
        list_ex_iff startsWith_prefix join_empty_separator split: sum.splits)
  show ?thesis
    unfolding Let_def
    by (rule conjI, rule step [OF refl], subst first_line, subst step [OF refl])
       (simp add: fresh_def)
qed

theorem C7_spf_witness:
  "report (checkSPF (txt_answer (Inr [[''v=spf1 -all'']])) ''example.com'' fresh) =
     [\<lparr>emoji = Check_mark, scoreDelta = 10, body = Criterion (SPF, exists)\<rparr>]
   \<and> report (checkSPF (txt_answer (Inr [[''google-site'', ''-verification''], [''v=sp'', ''f1 ~all'']]))
        ''example.com'' fresh) =
     [\<lparr>emoji = Check_mark, scoreDelta = 10, body = Criterion (SPF, exists)\<rparr>]
   \<and> report (checkSPF (txt_answer (Inr [[''v=notspf'']])) ''example.com'' fresh) =
     [\<lparr>emoji = Cross_mark, scoreDelta = - 10, body = Criterion (SPF, not_exists)\<rparr>]
   \<and> report (checkSPF
        (txt_answer (Inl \<lparr>code = Some ''ENOTFOUND'', error_message = ''queryTxt ENOTFOUND''\<rparr>))
        ''example.com'' fresh) =
     [\<lparr>emoji = Cross_mark, scoreDelta = - 10, body = Criterion (SPF, not_exists)\<rparr>]
   \<and> report (checkSPF
        (txt_answer (Inl \<lparr>code = Some ''ENODATA'', error_message = ''queryTxt ENODATA''\<rparr>))
        ''example.com'' fresh) =
     [\<lparr>emoji = Cross_mark, scoreDelta = - 10, body = Criterion (SPF, not_exists)\<rparr>]
   \<and> report (checkSPF
        (txt_answer (Inl \<lparr>code = Some ''ESERVFAIL'', error_message = ''queryTxt ESERVFAIL''\<rparr>))
        ''example.com'' fresh) =
     [\<lparr>emoji = Warning_sign, scoreDelta = 0, body = Lookup_error SPF ''queryTxt ESERVFAIL''\<rparr>]"
  using C7_spf [of "txt_answer (Inr [[''v=spf1 -all'']])" "''example.com''" fresh]
    C7_spf [of "txt_answer (Inr [[''google-site'', ''-verification''], [''v=sp'', ''f1 ~all'']])"
      "''example.com''" fresh]
    C7_spf [of "txt_answer (Inr [[''v=notspf'']])" "''example.com''" fresh]
    C7_spf [of "txt_answer (Inl \<lparr>code = Some ''ENOTFOUND'', error_message = ''queryTxt ENOTFOUND''\<rparr>)"
      "''example.com''" fresh]
    C7_spf [of "txt_answer (Inl \<lparr>code = Some ''ENODATA'', error_message = ''queryTxt ENODATA''\<rparr>)"
      "''example.com''" fresh]
    C7_spf [of "txt_answer (Inl \<lparr>code = Some ''ESERVFAIL'', error_message = ''queryTxt ESERVFAIL''\<rparr>)"
      "''example.com''" fresh]
  by (simp add: Let_def txt_answer_def failure_class_of_def fresh_def)

text \<open>
  C8 (amended). The sixth block queries the MX records and appends exactly one line, the
  last of the report: +5 when the answer holds at least one record, -5 when the answer is
  empty or the query fails with \<open>ENOTFOUND\<close> or \<open>ENODATA\<close>, and a warning with score
  change 0 on any other failure. The total changes by the score change of the line. MX is
  not the only check whose absent record is penalised: SPF and DMARC absence (an empty
  answer, or a failure with \<open>ENOTFOUND\<close> or \<open>ENODATA\<close>) subtracts 10, an empty NS answer
  subtracts 10, and a CNAME query failing with \<open>ENOTFOUND\<close> subtracts 15. The absences
  that leave the total alone are a failed NS query, a CNAME query failing with
  \<open>ENODATA\<close>, and an A query that fails or answers with the empty list.
\<close>

theorem C8_mx_amended:
  "(let f = (case resolveMx dns domain of
               Inr mxRecords \<Rightarrow>
                 if mxRecords \<noteq> []
                 then \<lparr>emoji = Check_mark, scoreDelta = 5, body = Criterion (MX, exists)\<rparr>
                 else \<lparr>emoji = Cross_mark, scoreDelta = - 5,
                        body = Criterion (MX, not_exists)\<rparr>
             | Inl e \<Rightarrow>
                 (case failure_class_of e of
                    NotFound \<Rightarrow>
                      \<lparr>emoji = Cross_mark, scoreDelta = - 5,
                       body = Criterion (MX, not_exists)\<rparr>
                  | NoData \<Rightarrow>
                      \<lparr>emoji = Cross_mark, scoreDelta = - 5,
                       body = Criterion (MX, not_exists)\<rparr>
                  | Transient \<Rightarrow>
                      \<lparr>emoji = Warning_sign, scoreDelta = 0,
                       body = Lookup_error MX (error_message e)\<rparr>))
    in checkMX dns domain st =
         st\<lparr>totalScore := totalScore st + scoreDelta f,
            report := report st @ [f],
            queries := queries st @ [Q_resolveMx domain]\<rparr>
       \<and> last (report (generateTrustReport dns domain)) = f)
   \<and> (\<forall>e. resolveNs dns domain = Inl e \<longrightarrow>
          totalScore (checkNS dns domain st) = totalScore st)
   \<and> (\<forall>e. resolveCname dns (''www.'' @ domain) = Inl e \<and> failure_class_of e = NoData \<longrightarrow>
          totalScore (checkCNAME dns domain st) = totalScore st)
   \<and> (\<forall>e. resolve4 dns domain = Inl e \<longrightarrow>
          totalScore (checkA dns domain st) = totalScore st)
   \<and> (resolve4 dns domain = Inr [] \<longrightarrow>
          totalScore (checkA dns domain st) = totalScore st)
   \<and> (\<forall>e. resolveTxt dns domain = Inl e \<and> failure_class_of e \<noteq> Transient \<longrightarrow>
          totalScore (checkSPF dns domain st) = totalScore st - 10)
   \<and> (resolveTxt dns domain = Inr [] \<longrightarrow>
          totalScore (checkSPF dns domain st) = totalScore st - 10)
   \<and> (\<forall>e. resolveTxt dns (''_dmarc.'' @ domain) = Inl e \<and> failure_class_of e \<noteq> Transient \<longrightarrow>
          totalScore (checkDMARC dns domain st) = totalScore st - 10)
   \<and> (resolveTxt dns (''_dmarc.'' @ domain) = Inr [] \<longrightarrow>
          totalScore (checkDMARC dns domain st) = totalScore st - 10)
   \<and> (resolveNs dns domain = Inr [] \<longrightarrow>
          totalScore (checkNS dns domain st) = totalScore st - 10)
   \<and> (\<forall>e. resolveCname dns (''www.'' @ domain) = Inl e \<and> failure_class_of e = NotFound \<longrightarrow>
          totalScore (checkCNAME dns domain st) = totalScore st - 15)"
proof -
  define f where "f = (case resolveMx dns domain of
               Inr mxRecords \<Rightarrow>
                 if mxRecords \<noteq> []
                 then \<lparr>emoji = Check_mark, scoreDelta = 5, body = Criterion (MX, exists)\<rparr>
                 else \<lparr>emoji = Cross_mark, scoreDelta = - 5,
                        body = Criterion (MX, not_exists)\<rparr>
             | Inl e \<Rightarrow>
                 (case failure_class_of e of
                    NotFound \<Rightarrow>
                      \<lparr>emoji = Cross_mark, scoreDelta = - 5,
                       body = Criterion (MX, not_exists)\<rparr>
                  | NoData \<Rightarrow>
                      \<lparr>emoji = Cross_mark, scoreDelta = - 5,
                       body = Criterion (MX, not_exists)\<rparr>
                  | Transient \<Rightarrow>
                      \<lparr>emoji = Warning_sign, scoreDelta = 0,
                       body = Lookup_error MX (error_message e)\<rparr>))"
  have step: "checkMX dns domain s =
      s\<lparr>totalScore := totalScore s + scoreDelta f,
        report := report s @ [f],
        queries := queries s @ [Q_resolveMx domain]\<rparr>" for s
    unfolding f_def
    by (simp add: checkMX_def criteria_defs acc_defs failure_class_of_def Let_def
        split: sum.splits)
  have "report (checkMX dns domain fresh) = [f]"
    by (subst step) (simp add: fresh_def)
  then have place: "last (report (generateTrustReport dns domain)) = f"
    by (simp add: last_line)
  have ns: "\<forall>e. resolveNs dns domain = Inl e \<longrightarrow>
      totalScore (checkNS dns domain st) = totalScore st"
    by (simp add: checkNS_def acc_defs Let_def)
  have cname: "\<forall>e. resolveCname dns (''www.'' @ domain) = Inl e \<and> failure_class_of e = NoData \<longrightarrow>
      totalScore (checkCNAME dns domain st) = totalScore st"
    by (simp add: checkCNAME_def acc_defs failure_class_of_def Let_def split: if_splits)
  have a: "\<forall>e. resolve4 dns domain = Inl e \<longrightarrow>
      totalScore (checkA dns domain st) = totalScore st"
    by (simp add: checkA_def acc_defs Let_def)
  have a0: "resolve4 dns domain = Inr [] \<longrightarrow>
      totalScore (checkA dns domain st) = totalScore st"
    by (simp add: checkA_def acc_defs Let_def)
  have spf: "\<forall>e. resolveTxt dns domain = Inl e \<and> failure_class_of e \<noteq> Transient \<longrightarrow>
      totalScore (checkSPF dns domain st) = totalScore st - 10"
    by (simp add: checkSPF_def criteria_defs acc_defs failure_class_of_def Let_def
        split: if_splits)
  have spf0: "resolveTxt dns domain = Inr [] \<longrightarrow>
      totalScore (checkSPF dns domain st) = totalScore st - 10"
    by (simp add: checkSPF_def criteria_defs acc_defs Let_def)
  have dmarc: "\<forall>e. resolveTxt dns (''_dmarc.'' @ domain) = Inl e \<and>
        failure_class_of e \<noteq> Transient \<longrightarrow>
      totalScore (checkDMARC dns domain st) = totalScore st - 10"
    by (simp add: checkDMARC_def criteria_defs acc_defs failure_class_of_def Let_def
        split: if_splits)
  have dmarc0: "resolveTxt dns (''_dmarc.'' @ domain) = Inr [] \<longrightarrow>
      totalScore (checkDMARC dns domain st) = totalScore st - 10"
    by (simp add: checkDMARC_def criteria_defs acc_defs Let_def)
  have ns0: "resolveNs dns domain = Inr [] \<longrightarrow>
      totalScore (checkNS dns domain st) = totalScore st - 10"
    by (simp add: checkNS_def criteria_defs acc_defs Let_def)
  have cname_nf: "\<forall>e. resolveCname dns (''www.'' @ domain) = Inl e \<and>
        failure_class_of e = NotFound \<longrightarrow>
      totalScore (checkCNAME dns domain st) = totalScore st - 15"
    by (simp add: checkCNAME_def criteria_defs acc_defs failure_class_of_def Let_def
        split: if_splits)
  have mx: "checkMX dns domain st =
      st\<lparr>totalScore := totalScore st + scoreDelta f,
        report := report st @ [f],
        queries := queries st @ [Q_resolveMx domain]\<rparr>
      \<and> last (report (generateTrustReport dns domain)) = f"
    using step [of st] place by simp
  show ?thesis
    unfolding Let_def f_def [symmetric]
    by (intro conjI mx [THEN conjunct1] mx [THEN conjunct2] ns cname a a0 spf spf0 dmarc dmarc0
        ns0 cname_nf)
qed

theorem C8_mx_amended_witness:
  "report (checkMX (mx_answer (Inr [\<lparr>exchange = ''mail.example.com'', priority = 10\<rparr>]))
        ''example.com'' fresh) =
     [\<lparr>emoji = Check_mark, scoreDelta = 5, body = Criterion (MX, exists)\<rparr>]
   \<and> report (checkMX (mx_answer (Inr [])) ''example.com'' fresh) =
     [\<lparr>emoji = Cross_mark, scoreDelta = - 5, body = Criterion (MX, not_exists)\<rparr>]
   \<and> report (checkMX
        (mx_answer (Inl \<lparr>code = Some ''ENOTFOUND'', error_message = ''queryMx ENOTFOUND''\<rparr>))
        ''example.com'' fresh) =
     [\<lparr>emoji = Cross_mark, scoreDelta = - 5, body = Criterion (MX, not_exists)\<rparr>]
   \<and> report (checkMX
        (mx_answer (Inl \<lparr>code = Some ''ENODATA'', error_message = ''queryMx ENODATA''\<rparr>))
        ''example.com'' fresh) =
     [\<lparr>emoji = Cross_mark, scoreDelta = - 5, body = Criterion (MX, not_exists)\<rparr>]
   \<and> report (checkMX
        (mx_answer (Inl \<lparr>code = Some ''ETIMEOUT'', error_message = ''queryMx ETIMEOUT''\<rparr>))
        ''example.com'' fresh) =
     [\<lparr>emoji = Warning_sign, scoreDelta = 0, body = Lookup_error MX ''queryMx ETIMEOUT''\<rparr>]
   \<and> totalScore (checkMX (failing ''ENODATA'') ''example.com'' fresh) = - 5
   \<and> totalScore (checkNS (failing ''ENODATA'') ''example.com'' fresh) = 0
   \<and> totalScore (checkCNAME (failing ''ENODATA'') ''example.com'' fresh) = 0
   \<and> totalScore (checkA (failing ''ENODATA'') ''example.com'' fresh) = 0
   \<and> totalScore (checkSPF (failing ''ENODATA'') ''example.com'' fresh) = - 10
   \<and> totalScore (checkDMARC (failing ''ENODATA'') ''example.com'' fresh) = - 10
   \<and> totalScore (checkCNAME (failing ''ENOTFOUND'') ''example.com'' fresh) = - 15"
  using C8_mx_amended [of "failing ''ENODATA''" "''example.com''" fresh]
    C8_mx_amended [of "failing ''ENOTFOUND''" "''example.com''" fresh]
    C8_mx_amended [of "mx_answer (Inr [\<lparr>exchange = ''mail.example.com'', priority = 10\<rparr>])"
      "''example.com''" fresh]
    C8_mx_amended [of "mx_answer (Inr [])" "''example.com''" fresh]
    C8_mx_amended [of "mx_answer (Inl \<lparr>code = Some ''ENOTFOUND'', error_message = ''queryMx ENOTFOUND''\<rparr>)"
      "''example.com''" fresh]
    C8_mx_amended [of "mx_answer (Inl \<lparr>code = Some ''ENODATA'', error_message = ''queryMx ENODATA''\<rparr>)"
      "''example.com''" fresh]
    C8_mx_amended [of "mx_answer (Inl \<lparr>code = Some ''ETIMEOUT'', error_message = ''queryMx ETIMEOUT''\<rparr>)"
      "''example.com''" fresh]
  by (simp add: Let_def mx_answer_def failing_def failure_class_of_def fresh_def)

text \<open>
  The claim C8 as stated fails in its contrast: MX is not the only absent record that
  costs points. With every query failing with \<open>ENODATA\<close>, the SPF and DMARC blocks
  subtract 10 each just as the MX block subtracts 5; with \<open>ENOTFOUND\<close> the CNAME block
  subtracts 15.
\<close>

theorem C8_other_absences_counterexample:
  "resolveTxt (failing ''ENODATA'') ''example.com'' =
     Inl \<lparr>code = Some ''ENODATA'', error_message = ''query failed''\<rparr>
   \<and> checkSPF (failing ''ENODATA'') ''example.com'' fresh =
       \<lparr>totalScore = - 10,
        report = [\<lparr>emoji = Cross_mark, scoreDelta = - 10,
                   body = Criterion (SPF, not_exists)\<rparr>],
        queries = [Q_resolveTxt ''example.com'']\<rparr>
   \<and> checkDMARC (failing ''ENODATA'') ''example.com'' fresh =
       \<lparr>totalScore = - 10,
        report = [\<lparr>emoji = Cross_mark, scoreDelta = - 10,
                   body = Criterion (DMARC, not_exists)\<rparr>],
        queries = [Q_resolveTxt ''_dmarc.example.com'']\<rparr>
   \<and> checkMX (failing ''ENODATA'') ''example.com'' fresh =
       \<lparr>totalScore = - 5,
        report = [\<lparr>emoji = Cross_mark, scoreDelta = - 5,
                   body = Criterion (MX, not_exists)\<rparr>],
        queries = [Q_resolveMx ''example.com'']\<rparr>
   \<and> totalScore (checkCNAME (failing ''ENOTFOUND'') ''example.com'' fresh) = - 15"
  by code_simp

text \<open>
  C9 (amended). \<open>generateTrustReport\<close> does not validate its argument: for every domain
  string, the empty one included, it issues the primary queries on it, in order, and
  returns a report of at least five lines in which the failures are findings. An input line
  that is empty after trimming is turned away by the prompt loop, which asks again
  without calling the analysis; a line the URL parser rejects is analysed as typed.
\<close>

theorem C9_no_validation_amended:
  "queries (generateTrustReport dns domain) =
     [Q_resolveTxt domain, Q_resolveTxt (''_dmarc.'' @ domain), Q_resolveNs domain,
      Q_resolveCname (''www.'' @ domain), Q_resolve4 domain] @
     (case resolve4 dns domain of
        Inr aRecords \<Rightarrow>
          if 0 < length aRecords \<and> length aRecords < 5 then map Q_reverse aRecords else []
      | Inl e \<Rightarrow> []) @
     [Q_resolveMx domain]
   \<and> 5 \<le> length (report (generateTrustReport dns domain))
   \<and> (trim input = [] \<longrightarrow> startAnalyzer url_hostname input = Ask_again)
   \<and> (trim input \<noteq> [] \<and> toLowerCase (trim input) \<noteq> ''exit'' \<and>
       url_hostname (if \<not> startsWith (trim input) ''http'' then ''http://'' @ trim input
                     else trim input) = None
       \<longrightarrow> startAnalyzer url_hostname input = Analyze (trim input))"
proof -
  have "length (kinds (generateTrustReport dns domain)) \<ge> 5"
    by (simp add: kinds_generateTrustReport kinds_checkSPF kinds_checkDMARC kinds_checkNS
        kinds_checkCNAME kinds_checkMX)
  then have "5 \<le> length (report (generateTrustReport dns domain))"
    by (simp add: kinds_def)
  moreover have "trim input = [] \<longrightarrow> startAnalyzer url_hostname input = Ask_again"
    by (simp add: startAnalyzer_def toLowerCase_def)
  moreover have "trim input \<noteq> [] \<and> toLowerCase (trim input) \<noteq> ''exit'' \<and>
       url_hostname (if \<not> startsWith (trim input) ''http'' then ''http://'' @ trim input
                     else trim input) = None
       \<longrightarrow> startAnalyzer url_hostname input = Analyze (trim input)"
    by (simp add: startAnalyzer_def Let_def)
  ultimately show ?thesis
    using all_queries [of dns domain] by simp
qed

theorem C9_no_validation_amended_witness:
  "queries (generateTrustReport (failing ''ENOTFOUND'') '''') =
     [Q_resolveTxt '''', Q_resolveTxt ''_dmarc.'', Q_resolveNs '''', Q_resolveCname ''www.'',
      Q_resolve4 '''', Q_resolveMx '''']
   \<and> trim ''   '' = []
   \<and> startAnalyzer never_parses ''   '' = Ask_again
   \<and> trim '' not a url '' = ''not a url''
   \<and> startAnalyzer never_parses '' not a url '' = Analyze ''not a url''"
proof -
  have t: "trim ''   '' = []" "trim '' not a url '' = ''not a url''"
    by code_simp+
  have l: "toLowerCase ''not a url'' \<noteq> ''exit''"
    by code_simp
  from C9_no_validation_amended [of "failing ''ENOTFOUND''" "''''" "''   ''" never_parses]
    C9_no_validation_amended [of "failing ''ENOTFOUND''" "''''" "'' not a url ''" never_parses]
    t l
  show ?thesis
    by (simp add: failing_def never_parses_def)
qed

text \<open>
  The claim C9 as stated fails: called on the empty domain, the analysis issues its six
  primary queries and folds their failures into a report of five lines.
\<close>

theorem C9_empty_domain_counterexample:
  "queries (generateTrustReport (failing ''ENOTFOUND'') '''') \<noteq> []
   \<and> queries (generateTrustReport (failing ''ENOTFOUND'') '''') =
       [Q_resolveTxt '''', Q_resolveTxt ''_dmarc.'', Q_resolveNs '''', Q_resolveCname ''www.'',
        Q_resolve4 '''', Q_resolveMx '''']
   \<and> kinds (generateTrustReport (failing ''ENOTFOUND'') '''') = [SPF, DMARC, NS, CNAME, MX]
   \<and> totalScore (generateTrustReport (failing ''ENOTFOUND'') '''') = - 40"
  by code_simp

end
